theory Spec2Isabelle
  imports Complex_Main
begin

section \<open>Python values and arithmetic\<close>

text \<open>
  The widget of \<^verbatim>\<open>simple_dial.py\<close> computes with Python numbers. Pixel sizes and
  coordinates are integers (\<^typ>\<open>int\<close>); the dial value, the scale of the labels and every
  angle are Python floats, taken here as \<^typ>\<open>real\<close>: the model computes with exact real
  arithmetic where the interpreter computes with binary floating point. Every exception
  the source can raise by itself is a value of \<open>error\<close>: the \<^verbatim>\<open>raise ValueError\<close> of
  \<^verbatim>\<open>_adjust_dimensions\<close>, the read of a local variable that was never assigned, and a
  division by zero.
\<close>

datatype error = ValueError string | UnboundLocalError string | ZeroDivisionError

text \<open>
  The only \<^verbatim>\<open>raise\<close> statement of the source raises \<^verbatim>\<open>ValueError\<close>; the two other
  exceptions come from the interpreter.
\<close>

fun raised_by_statement :: "error \<Rightarrow> bool" where
  "raised_by_statement (ValueError msg) = True"
| "raised_by_statement (UnboundLocalError var) = False"
| "raised_by_statement ZeroDivisionError = False"

text \<open>\<^verbatim>\<open>round(x)\<close>: to the nearest integer, a tie going to the even neighbour.\<close>

definition py_round :: "real \<Rightarrow> int" where
  "py_round x =
     (let f = \<lfloor>x\<rfloor>; d = x - of_int f
      in if d < 1 / 2 then f
         else if 1 / 2 < d then f + 1
         else if even f then f else f + 1)"

text \<open>\<^verbatim>\<open>round(x, n)\<close>: to \<open>n\<close> decimal places.\<close>

definition py_round_ndigits :: "real \<Rightarrow> nat \<Rightarrow> real" where
  "py_round_ndigits x n = of_int (py_round (x * 10 ^ n)) / 10 ^ n"

text \<open>\<^verbatim>\<open>int(x)\<close> of a float: truncation towards zero.\<close>

definition py_int :: "real \<Rightarrow> int" where
  "py_int x = (if 0 \<le> x then \<lfloor>x\<rfloor> else \<lceil>x\<rceil>)"

text \<open>\<^verbatim>\<open>a / b\<close>: true division, which raises on a zero divisor.\<close>

definition py_truediv :: "real \<Rightarrow> real \<Rightarrow> error + real" where
  "py_truediv a b = (if b = 0 then Inl ZeroDivisionError else Inr (a / b))"

section \<open>Collaborators of the widget\<close>

text \<open>
  A font is used through two optional attributes, tested with \<^verbatim>\<open>hasattr\<close>: the method
  \<^verbatim>\<open>get_bounding_box\<close> (its result a pair of width and height) and the number
  \<^verbatim>\<open>ascent\<close>. An attribute the font does not have is \<open>None\<close>.
\<close>

record font =
  get_bounding_box :: "(int \<times> int) option"
  ascent :: "int option"

text \<open>
  The tick labels are a Python sequence. The default is a tuple, and the source compares the
  sequence with the empty list: a tuple is never equal to a list.
\<close>

datatype labels = PyList "string list" | PyTuple "string list"

fun items :: "labels \<Rightarrow> string list" where
  "items (PyList xs) = xs"
| "items (PyTuple xs) = xs"

fun eq_empty_list :: "labels \<Rightarrow> bool" where
  "eq_empty_list (PyList xs) = (xs = [])"
| "eq_empty_list (PyTuple xs) = False"

text \<open>
  The face raster is a \<^verbatim>\<open>displayio.Bitmap\<close>. The host toolkit paints it; the widget only
  issues drawing calls, so the raster is its size together with the calls made on it, in
  order: \<^verbatim>\<open>bitmaptools.rotozoom\<close> (target origin, source raster, pivot, angle, scale) and
  \<^verbatim>\<open>bitmaptools.draw_line\<close> (two end points and a colour index). A source raster is
  the prototype of a tick (its width, its height and the colour index it is filled with) or
  the raster of a label (its font and its text).
\<close>

datatype source_bitmap =
    TickBitmap int int int
  | LabelBitmap font string

datatype draw_op =
    Rotozoom (rz_ox: int) (rz_oy: int) (rz_source: source_bitmap)
             (rz_px: int) (rz_py: int) (rz_angle: real) (rz_scale: real)
  | DrawLine int int int int int

fun op_angle :: "draw_op \<Rightarrow> real option" where
  "op_angle (Rotozoom ox oy src px py a s) = Some a"
| "op_angle (DrawLine x0 y0 x1 y1 c) = None"

record bitmap =
  bm_width :: int
  bm_height :: int
  bm_value_count :: int
  bm_ops :: "draw_op list"

definition Bitmap :: "int \<Rightarrow> int \<Rightarrow> int \<Rightarrow> bitmap" where
  "Bitmap w h n = \<lparr>bm_width = w, bm_height = h, bm_value_count = n, bm_ops = []\<rparr>"

definition draw :: "bitmap \<Rightarrow> draw_op list \<Rightarrow> bitmap" where
  "draw bm new_ops = bm\<lparr>bm_ops := bm_ops bm @ new_ops\<rparr>"

text \<open>A \<^verbatim>\<open>displayio.Palette\<close>: its colour entries and the indices made transparent.\<close>

record palette =
  pal_colors :: "nat list"
  pal_transparent :: "nat list"

definition Palette :: "nat \<Rightarrow> palette" where
  "Palette n = \<lparr>pal_colors = replicate n 0, pal_transparent = []\<rparr>"

definition make_transparent :: "palette \<Rightarrow> nat \<Rightarrow> palette" where
  "make_transparent p i = p\<lparr>pal_transparent := pal_transparent p @ [i]\<rparr>"

definition set_color :: "palette \<Rightarrow> nat \<Rightarrow> nat \<Rightarrow> palette" where
  "set_color p i c = p\<lparr>pal_colors := (pal_colors p)[i := c]\<rparr>"

text \<open>
  What the source takes from the host and does not define: the built-in font
  \<^verbatim>\<open>terminalio.FONT\<close>, and the size (width, height) of the raster that
  \<^verbatim>\<open>bitmap_label.Label\<close> renders for a text in a font.
\<close>

record host =
  terminalio_FONT :: font
  label_bitmap_size :: "font \<Rightarrow> string \<Rightarrow> int \<times> int"

section \<open>The dial\<close>

text \<open>The arguments of \<^verbatim>\<open>Dial.__init__\<close>, which it stores unchanged.\<close>

record config =
  group_x :: int
  group_y :: int
  width :: int
  height :: int
  padding :: int
  needle_width_requested :: int
  needle_pad :: int
  needle_full :: bool
  needle_color :: nat
  limit_rotation :: bool
  init_value :: "real option"
  min_value :: real
  max_value :: real
  tick_color :: nat
  major_ticks :: int
  major_tick_stroke :: int
  major_tick_length :: int
  major_tick_labels :: labels
  minor_ticks :: int
  minor_tick_stroke :: int
  minor_tick_length :: int
  tick_label_font :: "font option"
  tick_label_color :: nat
  rotate_tick_labels :: bool
  tick_label_scale :: real
  background_color :: "nat option"

text \<open>The defaults of the signature of \<^verbatim>\<open>Dial.__init__\<close>.\<close>

definition default_config :: config where
  "default_config =
     \<lparr>group_x = 100, group_y = 100, width = 100, height = 100, padding = 5,
      needle_width_requested = 3, needle_pad = 10, needle_full = False,
      needle_color = 0x880000, limit_rotation = True, init_value = None,
      min_value = 0, max_value = 100, tick_color = 0xFFFFFF,
      major_ticks = 5, major_tick_stroke = 4, major_tick_length = 10,
      major_tick_labels = PyTuple [''0'', ''25'', ''50'', ''75'', ''100''],
      minor_ticks = 5, minor_tick_stroke = 1, minor_tick_length = 5,
      tick_label_font = None, tick_label_color = 0xFFFFFF,
      rotate_tick_labels = True, tick_label_scale = 1, background_color = None\<rparr>"

text \<open>What \<^verbatim>\<open>_adjust_dimensions\<close> assigns: the size of the face, the centre, the radius.\<close>

record dimensions =
  dim_width :: int
  dim_height :: int
  dim_center :: "int \<times> int"
  dim_radius :: int

datatype layer = DialTilegrid | NeedleShape

text \<open>
  The widget after construction: the stored arguments, the stored value \<^verbatim>\<open>_value\<close>, the
  derived geometry, the face raster with its palette, and the needle, a
  \<^verbatim>\<open>vectorio.Polygon\<close> whose list of points is replaced at each update.
\<close>

record dial =
  conf :: config
  tick_font :: font
  stored_value :: real
  dial_half :: int
  font_height :: int
  face_width :: int
  face_height :: int
  bounding_box :: "int list"
  dial_center :: "int \<times> int"
  dial_radius :: int
  dial_bitmap :: bitmap
  dial_palette :: palette
  needle_palette :: palette
  needle_points :: "(int \<times> int) list"
  needle_width :: int
  group_layers :: "layer list"

subsection \<open>Geometry\<close>

definition adjust_dimensions :: "config \<Rightarrow> int \<Rightarrow> int \<Rightarrow> error + dimensions" where
  "adjust_dimensions self w h =
     (let left = (0::real); top = (0::real); right = (1::real); bottom = (1::real);
          x_center_calc = (1 / 2 :: real); y_center_calc = (1 / 2 :: real)
      in if w - 2 * padding self < 0 \<or> h - 2 * padding self < 0
         then Inl (ValueError ''Width, height, or padding size makes zero sized box'')
         else
           let box_aspect_ratio = (right - left) / (bottom - top);
               new_height = \<lceil>of_int (w - 2 * padding self) / box_aspect_ratio\<rceil>
                              + 2 * padding self;
               radius = py_round (of_int (w - 2 * padding self) / (2 * (right - left)));
               center_x = py_round (x_center_calc * of_int radius * 2) + padding self;
               center_y = py_round (y_center_calc * of_int radius * 2) + padding self
           in Inr \<lparr>dim_width = w, dim_height = new_height,
                    dim_center = (center_x, center_y), dim_radius = radius\<rparr>)"

definition get_font_height :: "config \<Rightarrow> font option \<Rightarrow> real \<Rightarrow> error + int" where
  "get_font_height self fnt scale =
     (if eq_empty_list (major_tick_labels self) \<or> fnt = None then Inr 0
      else case fnt of
             None \<Rightarrow> Inr 0
           | Some f \<Rightarrow>
               (case get_bounding_box f of
                  Some bb \<Rightarrow> Inr (py_int (scale * of_int (snd bb)))
                | None \<Rightarrow>
                    (case ascent f of
                       Some a \<Rightarrow> Inr (py_int (scale * of_int a + of_int a))
                     | None \<Rightarrow> Inl (UnboundLocalError ''font_height''))))"

subsection \<open>Ticks, labels and the outline\<close>

definition tick_op :: "dimensions \<Rightarrow> int \<Rightarrow> int \<Rightarrow> int \<Rightarrow> int \<Rightarrow> draw_op" where
  "tick_op g tick_count tick_stroke tick_length i =
     (let this_angle =
            py_round_ndigits
              ((- 180 + of_int i * 360 / of_int (tick_count - 1)) * (2 * pi / 360)) 4;
          target_position_x =
            of_int (fst (dim_center g)) + of_int (dim_radius g) * sin this_angle;
          target_position_y =
            of_int (snd (dim_center g)) - of_int (dim_radius g) * cos this_angle
      in Rotozoom (py_round target_position_x) (py_round target_position_y)
           (TickBitmap tick_stroke tick_length 2)
           (py_round (of_int tick_stroke / 2)) 0 this_angle 1)"

definition draw_ticks :: "dimensions \<Rightarrow> bitmap \<Rightarrow> int \<Rightarrow> int \<Rightarrow> int \<Rightarrow> bitmap" where
  "draw_ticks g bm tick_count tick_stroke tick_length =
     (if tick_count \<le> 1 then bm
      else draw bm (map (tick_op g tick_count tick_stroke tick_length) [0..tick_count - 1]))"

text \<open>
  One round of the loop of \<^verbatim>\<open>draw_labels\<close>. The flag \<^verbatim>\<open>_rotate_tick_labels\<close> is in
  \<open>self\<close>; the body does not read it.
\<close>

definition label_op ::
  "host \<Rightarrow> config \<Rightarrow> font \<Rightarrow> int \<Rightarrow> dimensions \<Rightarrow> int \<Rightarrow> nat \<Rightarrow> string \<Rightarrow> error + draw_op" where
  "label_op hst self fnt fh g label_count i this_label_text =
     (case py_truediv (of_nat i * 360) (of_int (label_count - 1)) of
        Inl e \<Rightarrow> Inl e
      | Inr q \<Rightarrow>
          let sz = label_bitmap_size hst fnt this_label_text;
              this_angle = (2 * pi / 360) * (- 180 + q);
              target_position_x =
                of_int (fst (dim_center g))
                  + of_int (dim_radius g + fh div 2) * sin this_angle;
              target_position_y =
                of_int (snd (dim_center g))
                  - of_int (dim_radius g + fh div 2) * cos this_angle
          in Inr (Rotozoom (py_round target_position_x) (py_round target_position_y)
                    (LabelBitmap fnt this_label_text)
                    (fst sz div 2) (snd sz div 2) this_angle (tick_label_scale self)))"

fun draw_labels_loop ::
  "host \<Rightarrow> config \<Rightarrow> font \<Rightarrow> int \<Rightarrow> dimensions \<Rightarrow> int \<Rightarrow> (nat \<times> string) list \<Rightarrow> bitmap
     \<Rightarrow> error + bitmap" where
  "draw_labels_loop hst self fnt fh g label_count [] bm = Inr bm"
| "draw_labels_loop hst self fnt fh g label_count ((i, t) # rest) bm =
     (case label_op hst self fnt fh g label_count i t of
        Inl e \<Rightarrow> Inl e
      | Inr op \<Rightarrow> draw_labels_loop hst self fnt fh g label_count rest (draw bm [op]))"

definition draw_labels ::
  "host \<Rightarrow> config \<Rightarrow> font \<Rightarrow> int \<Rightarrow> dimensions \<Rightarrow> bitmap \<Rightarrow> error + bitmap" where
  "draw_labels hst self fnt fh g bm =
     (let label_count = int (length (items (major_tick_labels self)))
      in draw_labels_loop hst self fnt fh g label_count
           (enumerate 0 (items (major_tick_labels self))) bm)"

definition circle_points :: "dimensions \<Rightarrow> (int \<times> int) list" where
  "circle_points g =
     map (\<lambda>i. (fst (dim_center g) + py_int (of_int (dim_radius g) * cos (of_int i * pi / 180)),
               snd (dim_center g) + py_int (of_int (dim_radius g) * sin (of_int i * pi / 180))))
         [0..360]"

fun circle_lines :: "(int \<times> int) list \<Rightarrow> draw_op list" where
  "circle_lines (p # q # rest) = DrawLine (fst p) (snd p) (fst q) (snd q) 2 # circle_lines (q # rest)"
| "circle_lines ps = []"

subsection \<open>The needle\<close>

text \<open>
  \<^verbatim>\<open>_draw_position\<close> first turns the position into an angle in radians
  (\<open>angle_offset\<close>), then computes the four corners from the angle (\<open>needle_polygon\<close>),
  then replaces the points of the needle.
\<close>

definition angle_offset :: "real \<Rightarrow> real" where
  "angle_offset position = (2 * pi / 360) * (- 180 + 360 * position)"

definition needle_polygon :: "dial \<Rightarrow> real \<Rightarrow> (int \<times> int) list" where
  "needle_polygon self a =
     (let cx = of_int (fst (dial_center self)) :: real;
          cy = of_int (snd (dial_center self)) :: real;
          len = of_int (dial_radius self - needle_pad (conf self)) :: real;
          half = of_int (dial_half self) :: real;
          d_x = (of_int (needle_width self) / 2) * cos a;
          d_y = (of_int (needle_width self) / 2) * sin a;
          x_0 = py_round (cx - (len * sin a * half) - d_x);
          y_0 = py_round (cy + (len * cos a * half) - d_y);
          x_1 = py_round (cx - (len * sin a * half) + d_x);
          y_1 = py_round (cy + (len * cos a * half) + d_y);
          x_2 = py_round (cx + (len * sin a) + d_x);
          y_2 = py_round (cy - (len * cos a) + d_y);
          x_3 = py_round (cx + (len * sin a) - d_x);
          y_3 = py_round (cy - (len * cos a) - d_y)
      in [(x_0, y_0), (x_1, y_1), (x_2, y_2), (x_3, y_3)])"

definition draw_position :: "dial \<Rightarrow> real \<Rightarrow> dial" where
  "draw_position self position =
     self\<lparr>needle_points := needle_polygon self (angle_offset position)\<rparr>"

text \<open>
  \<^verbatim>\<open>_update_needle(value)\<close>: with \<^verbatim>\<open>_limit_rotation\<close> the argument is replaced by the
  stored value, constrained between the two bounds.
\<close>

definition effective_value :: "dial \<Rightarrow> real \<Rightarrow> real" where
  "effective_value self v =
     (if limit_rotation (conf self)
      then max (min (stored_value self) (max_value (conf self))) (min_value (conf self))
      else v)"

definition update_needle :: "dial \<Rightarrow> real \<Rightarrow> error + dial" where
  "update_needle self v =
     (case py_truediv (effective_value self v)
             (max_value (conf self) - min_value (conf self)) of
        Inl e \<Rightarrow> Inl e
      | Inr position \<Rightarrow> Inr (draw_position self position))"

subsection \<open>The value property\<close>

definition get_value :: "dial \<Rightarrow> real" where
  "get_value self = stored_value self"

text \<open>
  The setter. An exception of \<^verbatim>\<open>_update_needle\<close> leaves the widget with the new stored
  value and the old needle, so the result is the exception, if any, and the widget.
\<close>

definition set_value :: "dial \<Rightarrow> real \<Rightarrow> error option \<times> dial" where
  "set_value self new_value =
     (if new_value \<noteq> stored_value self
      then let self1 = self\<lparr>stored_value := new_value\<rparr>
           in (case update_needle self1 (stored_value self1) of
                 Inl e \<Rightarrow> (Some e, self1)
               | Inr self2 \<Rightarrow> (None, self2))
      else (None, self))"

text \<open>A sequence of assignments to the property, each on the widget the last one left.\<close>

fun assign_values :: "dial \<Rightarrow> real list \<Rightarrow> dial" where
  "assign_values self [] = self"
| "assign_values self (v # vs) = assign_values (snd (set_value self v)) vs"

subsection \<open>Construction\<close>

definition initial_needle_points :: "(int \<times> int) list" where
  "initial_needle_points = [(100, 100), (100, 50), (50, 50), (50, 100)]"

definition face_palette :: "config \<Rightarrow> palette" where
  "face_palette self =
     (let p0 = Palette 4;
          p1 = (case background_color self of
                  None \<Rightarrow> set_color (make_transparent p0 0) 0 0x000000
                | Some c \<Rightarrow> set_color p0 0 c);
          p2 = set_color p1 1 (tick_label_color self)
      in set_color p2 2 (tick_color self))"

definition initialize_dial ::
  "host \<Rightarrow> config \<Rightarrow> font \<Rightarrow> real \<Rightarrow> int \<Rightarrow> int \<Rightarrow> int \<Rightarrow> error + dial" where
  "initialize_dial hst self fnt v half w h =
     (case get_font_height self (Some fnt) (tick_label_scale self) of
        Inl e \<Rightarrow> Inl e
      | Inr fh \<Rightarrow>
     (case adjust_dimensions self w h of
        Inl e \<Rightarrow> Inl e
      | Inr g \<Rightarrow>
     (let bm0 = Bitmap (dim_width g) (dim_height g) 3;
          bm1 = draw_ticks g bm0 (major_ticks self) (major_tick_stroke self)
                  (major_tick_length self);
          bm2 = draw_ticks g bm1 (minor_ticks self * (major_ticks self - 1) + 1)
                  (minor_tick_stroke self) (minor_tick_length self)
      in case draw_labels hst self fnt fh g bm2 of
           Inl e \<Rightarrow> Inl e
         | Inr bm3 \<Rightarrow>
             (let bm4 = draw bm3 (circle_lines (circle_points g));
                  built =
                    \<lparr>conf = self, tick_font = fnt, stored_value = v, dial_half = half,
                     font_height = fh,
                     face_width = dim_width g, face_height = dim_height g,
                     bounding_box = [0, 0, dim_width g, dim_height g],
                     dial_center = dim_center g, dial_radius = dim_radius g,
                     dial_bitmap = bm4, dial_palette = face_palette self,
                     needle_palette = set_color (Palette 1) 0 (needle_color self),
                     needle_points = initial_needle_points,
                     needle_width = needle_width_requested self,
                     group_layers = [DialTilegrid, NeedleShape]\<rparr>
              in update_needle built (stored_value built)))))"

definition Dial_init :: "host \<Rightarrow> config \<Rightarrow> error + dial" where
  "Dial_init hst args =
     (let v = (case init_value args of None \<Rightarrow> min_value args | Some x \<Rightarrow> x);
          half = (if needle_full args then 1 else 0);
          fnt = (case tick_label_font args of
                   None \<Rightarrow> terminalio_FONT hst
                 | Some f \<Rightarrow> f)
      in initialize_dial hst args fnt v half (width args) (height args))"

subsection \<open>The example program\<close>

text \<open>
  \<^verbatim>\<open>examples/simple_dial_test.py\<close> builds a dial of 150 by 150 pixels with a padding of
  12, a range from 0 to 100, the built-in font and a full needle, and then assigns the
  values 1 to 100 and back. The host of the example: a built-in font that has a bounding
  box of 6 by 14 pixels and no \<^verbatim>\<open>ascent\<close>, and labels rendered 6 pixels wide per
  character.
\<close>

definition example_host :: host where
  "example_host =
     \<lparr>terminalio_FONT = \<lparr>get_bounding_box = Some (6, 14), ascent = None\<rparr>,
      label_bitmap_size = (\<lambda>f t. (6 * int (length t), 14))\<rparr>"

definition example_config :: config where
  "example_config =
     default_config\<lparr>group_x := 100, group_y := 120, width := 150, height := 150,
       padding := 12, min_value := 0, max_value := 100,
       tick_label_font := Some (terminalio_FONT example_host), needle_full := True\<rparr>"

definition example_dial :: dial where
  "example_dial = projr (Dial_init example_host example_config)"

text \<open>A font object with neither of the two attributes.\<close>

definition bare_font :: font where
  "bare_font = \<lparr>get_bounding_box = None, ascent = None\<rparr>"

section \<open>Auxiliary facts\<close>

lemma py_round_of_int: "py_round (of_int n) = n"
  by (simp add: py_round_def)

lemma adjust_dimensions_eq:
  "adjust_dimensions self w h =
     (if w - 2 * padding self < 0 \<or> h - 2 * padding self < 0
      then Inl (ValueError ''Width, height, or padding size makes zero sized box'')
      else Inr \<lparr>dim_width = w, dim_height = w,
                dim_center = (py_round (of_int (w - 2 * padding self) / 2) + padding self,
                              py_round (of_int (w - 2 * padding self) / 2) + padding self),
                dim_radius = py_round (of_int (w - 2 * padding self) / 2)\<rparr>)"
  by (simp add: adjust_dimensions_def Let_def py_round_of_int del: of_int_diff of_int_mult)

lemma label_op_Inr:
  "label_count \<noteq> 1 \<Longrightarrow> \<exists>op. label_op hst self fnt fh g label_count i t = Inr op"
  by (simp add: label_op_def py_truediv_def Let_def)

lemma label_op_error:
  "label_op hst self fnt fh g label_count i t = Inl e \<Longrightarrow> e = ZeroDivisionError"
  by (auto simp: label_op_def py_truediv_def Let_def split: if_splits)

lemma draw_labels_loop_Inr:
  "label_count \<noteq> 1 \<Longrightarrow> \<exists>bm'. draw_labels_loop hst self fnt fh g label_count xs bm = Inr bm'"
proof (induction xs arbitrary: bm)
  case Nil
  then show ?case by simp
next
  case (Cons p xs)
  obtain i t where p: "p = (i, t)" by (cases p)
  from Cons.prems obtain op where "label_op hst self fnt fh g label_count i t = Inr op"
    using label_op_Inr by blast
  with Cons.IH [OF Cons.prems] p show ?case by simp
qed

lemma draw_labels_loop_error:
  "draw_labels_loop hst self fnt fh g label_count xs bm = Inl e \<Longrightarrow> e = ZeroDivisionError"
proof (induction xs arbitrary: bm)
  case Nil
  then show ?case by simp
next
  case (Cons p xs)
  obtain i t where p: "p = (i, t)" by (cases p)
  show ?case
  proof (cases "label_op hst self fnt fh g label_count i t")
    case (Inl e')
    with Cons.prems p label_op_error [OF Inl] show ?thesis by simp
  next
    case (Inr op)
    with Cons.prems p have "draw_labels_loop hst self fnt fh g label_count xs (draw bm [op]) = Inl e"
      by simp
    then show ?thesis by (rule Cons.IH)
  qed
qed

lemma draw_labels_Inr:
  "length (items (major_tick_labels self)) \<noteq> 1 \<Longrightarrow> \<exists>bm'. draw_labels hst self fnt fh g bm = Inr bm'"
  unfolding draw_labels_def Let_def by (rule draw_labels_loop_Inr) simp

lemma draw_labels_error:
  "draw_labels hst self fnt fh g bm = Inl e \<Longrightarrow> e = ZeroDivisionError"
  unfolding draw_labels_def Let_def by (rule draw_labels_loop_error)

lemma get_font_height_error:
  "get_font_height self fnt scale = Inl e \<Longrightarrow> e = UnboundLocalError ''font_height''"
  by (auto simp: get_font_height_def split: if_splits option.splits)

lemma update_needle_error:
  "update_needle self v = Inl e \<Longrightarrow> e = ZeroDivisionError"
  by (auto simp: update_needle_def py_truediv_def split: if_splits)

lemma update_needle_Inr:
  "max_value (conf self) \<noteq> min_value (conf self) \<Longrightarrow>
   update_needle self v =
     Inr (self\<lparr>needle_points := needle_polygon self
            (angle_offset (effective_value self v / (max_value (conf self) - min_value (conf self))))\<rparr>)"
  by (simp add: update_needle_def py_truediv_def draw_position_def)

lemma update_needle_fields:
  "update_needle self v = Inr d \<Longrightarrow> \<exists>pts. d = self\<lparr>needle_points := pts\<rparr>"
  by (auto simp: update_needle_def py_truediv_def draw_position_def split: if_splits)

lemma py_round_ge_floor: "\<lfloor>x\<rfloor> \<le> py_round x"
  by (simp add: py_round_def Let_def)

lemma py_round_half_pos:
  assumes "2 \<le> n"
  shows "0 < py_round (of_int n / 2)"
proof -
  have "(1::real) \<le> of_int n / 2" using assms by simp
  then have "1 \<le> \<lfloor>of_int n / 2 :: real\<rfloor>" by (simp add: le_floor_iff)
  with py_round_ge_floor [of "of_int n / 2"] show ?thesis by linarith
qed

lemma update_needle_Inr_iff:
  "update_needle self v = Inr d \<longleftrightarrow>
     max_value (conf self) \<noteq> min_value (conf self) \<and>
     d = self\<lparr>needle_points := needle_polygon self
            (angle_offset (effective_value self v / (max_value (conf self) - min_value (conf self))))\<rparr>"
  by (auto simp: update_needle_def py_truediv_def draw_position_def)

lemma needle_polygon_frame [simp]:
  "needle_polygon (self\<lparr>needle_points := pts\<rparr>) a = needle_polygon self a"
  "needle_polygon (self\<lparr>stored_value := x\<rparr>) a = needle_polygon self a"
  by (simp_all add: needle_polygon_def)

lemma effective_value_frame [simp]:
  "effective_value (self\<lparr>needle_points := pts\<rparr>) v = effective_value self v"
  by (simp add: effective_value_def)

lemma initialize_dial_result:
  assumes "initialize_dial hst self fnt v half w h = Inr d"
  shows "\<exists>fh g bm.
           get_font_height self (Some fnt) (tick_label_scale self) = Inr fh \<and>
           adjust_dimensions self w h = Inr g \<and>
           max_value self \<noteq> min_value self \<and>
           conf d = self \<and> tick_font d = fnt \<and> stored_value d = v \<and> dial_half d = half \<and>
           font_height d = fh \<and> face_width d = dim_width g \<and> face_height d = dim_height g \<and>
           dial_center d = dim_center g \<and> dial_radius d = dim_radius g \<and>
           dial_bitmap d = bm \<and> dial_palette d = face_palette self \<and>
           needle_width d = needle_width_requested self \<and>
           needle_points d = needle_polygon d
             (angle_offset (effective_value d v / (max_value self - min_value self)))"
proof -
  obtain fh where fh: "get_font_height self (Some fnt) (tick_label_scale self) = Inr fh"
    using assms by (cases "get_font_height self (Some fnt) (tick_label_scale self)")
                   (simp_all add: initialize_dial_def)
  obtain g where g: "adjust_dimensions self w h = Inr g"
    using assms fh by (cases "adjust_dimensions self w h") (simp_all add: initialize_dial_def)
  define bm2 where "bm2 =
    draw_ticks g
      (draw_ticks g (Bitmap (dim_width g) (dim_height g) 3) (major_ticks self)
         (major_tick_stroke self) (major_tick_length self))
      (minor_ticks self * (major_ticks self - 1) + 1)
      (minor_tick_stroke self) (minor_tick_length self)"
  obtain bm3 where bm3: "draw_labels hst self fnt fh g bm2 = Inr bm3"
    using assms fh g unfolding bm2_def
    by (cases "draw_labels hst self fnt fh g
                 (draw_ticks g
                   (draw_ticks g (Bitmap (dim_width g) (dim_height g) 3) (major_ticks self)
                      (major_tick_stroke self) (major_tick_length self))
                   (minor_ticks self * (major_ticks self - 1) + 1)
                   (minor_tick_stroke self) (minor_tick_length self))")
       (simp_all add: initialize_dial_def Let_def)
  define built where "built =
    \<lparr>conf = self, tick_font = fnt, stored_value = v, dial_half = half,
     font_height = fh, face_width = dim_width g, face_height = dim_height g,
     bounding_box = [0, 0, dim_width g, dim_height g],
     dial_center = dim_center g, dial_radius = dim_radius g,
     dial_bitmap = draw bm3 (circle_lines (circle_points g)),
     dial_palette = face_palette self,
     needle_palette = set_color (Palette 1) 0 (needle_color self),
     needle_points = initial_needle_points,
     needle_width = needle_width_requested self,
     group_layers = [DialTilegrid, NeedleShape]\<rparr>"
  have "initialize_dial hst self fnt v half w h = update_needle built (stored_value built)"
    using fh g bm3 unfolding bm2_def built_def
    by (simp add: initialize_dial_def Let_def)
  with assms have upd: "update_needle built v = Inr d"
    by (simp add: built_def)
  have cb: "conf built = self" by (simp add: built_def)
  from upd have ne: "max_value self \<noteq> min_value self"
    and d: "d = built\<lparr>needle_points := needle_polygon built
              (angle_offset (effective_value built v / (max_value self - min_value self)))\<rparr>"
    unfolding update_needle_Inr_iff cb by simp_all
  have np: "needle_points d = needle_polygon d
              (angle_offset (effective_value d v / (max_value self - min_value self)))"
    by (subst (1 2 3) d) simp
  have flds: "conf d = self" "tick_font d = fnt" "stored_value d = v" "dial_half d = half"
    "font_height d = fh" "face_width d = dim_width g" "face_height d = dim_height g"
    "dial_center d = dim_center g" "dial_radius d = dim_radius g"
    "dial_palette d = face_palette self" "needle_width d = needle_width_requested self"
    by (simp_all add: d built_def)
  from fh g ne np flds show ?thesis by blast
qed

lemma Dial_init_result:
  assumes "Dial_init hst args = Inr d"
  shows "\<exists>g. adjust_dimensions args (width args) (height args) = Inr g \<and>
             face_width d = dim_width g \<and> face_height d = dim_height g \<and>
             dial_center d = dim_center g \<and> dial_radius d = dim_radius g"
    and "conf d = args"
    and "stored_value d = (case init_value args of None \<Rightarrow> min_value args | Some x \<Rightarrow> x)"
    and "dial_half d = (if needle_full args then 1 else 0)"
    and "needle_width d = needle_width_requested args"
    and "max_value args \<noteq> min_value args"
    and "needle_points d = needle_polygon d
           (angle_offset (effective_value d (stored_value d) / (max_value args - min_value args)))"
proof -
  from assms have "initialize_dial hst args
      (case tick_label_font args of None \<Rightarrow> terminalio_FONT hst | Some f \<Rightarrow> f)
      (case init_value args of None \<Rightarrow> min_value args | Some x \<Rightarrow> x)
      (if needle_full args then 1 else 0) (width args) (height args) = Inr d"
    by (simp add: Dial_init_def Let_def)
  from initialize_dial_result [OF this]
  show "\<exists>g. adjust_dimensions args (width args) (height args) = Inr g \<and>
             face_width d = dim_width g \<and> face_height d = dim_height g \<and>
             dial_center d = dim_center g \<and> dial_radius d = dim_radius g"
    and "conf d = args"
    and "stored_value d = (case init_value args of None \<Rightarrow> min_value args | Some x \<Rightarrow> x)"
    and "dial_half d = (if needle_full args then 1 else 0)"
    and "needle_width d = needle_width_requested args"
    and "max_value args \<noteq> min_value args"
    and "needle_points d = needle_polygon d
           (angle_offset (effective_value d (stored_value d) / (max_value args - min_value args)))"
    by auto
qed

lemma Dial_init_succeeds:
  assumes "get_font_height args
             (Some (case tick_label_font args of None \<Rightarrow> terminalio_FONT hst | Some f \<Rightarrow> f))
             (tick_label_scale args) = Inr fh"
    and "0 \<le> width args - 2 * padding args"
    and "0 \<le> height args - 2 * padding args"
    and "length (items (major_tick_labels args)) \<noteq> 1"
    and "max_value args \<noteq> min_value args"
  shows "\<exists>d. Dial_init hst args = Inr d"
proof -
  let ?fnt = "case tick_label_font args of None \<Rightarrow> terminalio_FONT hst | Some f \<Rightarrow> f"
  obtain g where g: "adjust_dimensions args (width args) (height args) = Inr g"
    using assms(2,3) by (simp add: adjust_dimensions_eq)
  obtain bm3 where bm3:
    "draw_labels hst args ?fnt fh g
       (draw_ticks g
         (draw_ticks g (Bitmap (dim_width g) (dim_height g) 3) (major_ticks args)
            (major_tick_stroke args) (major_tick_length args))
         (minor_ticks args * (major_ticks args - 1) + 1)
         (minor_tick_stroke args) (minor_tick_length args)) = Inr bm3"
    using draw_labels_Inr [OF assms(4)] by blast
  show ?thesis
    using assms(1,5) g bm3
    by (simp add: Dial_init_def initialize_dial_def Let_def update_needle_Inr)
qed

lemma example_font_height:
  "get_font_height example_config
     (Some (case tick_label_font example_config of None \<Rightarrow> terminalio_FONT example_host | Some f \<Rightarrow> f))
     (tick_label_scale example_config) = Inr 14"
  by (simp add: get_font_height_def example_config_def default_config_def example_host_def py_int_def)

lemma Dial_init_example: "Dial_init example_host example_config = Inr example_dial"
proof -
  have "\<exists>d. Dial_init example_host example_config = Inr d"
    by (rule Dial_init_succeeds [OF example_font_height])
       (simp_all add: example_config_def default_config_def)
  then show ?thesis by (auto simp: example_dial_def)
qed

lemma example_conf: "conf example_dial = example_config"
  by (rule Dial_init_result(2) [OF Dial_init_example])

lemma example_fields:
  "limit_rotation example_config" "min_value example_config = 0" "max_value example_config = 100"
  "init_value example_config = None" "width example_config = 150" "height example_config = 150"
  "padding example_config = 12"
  by (simp_all add: example_config_def default_config_def)

lemma example_stored: "stored_value example_dial = 0"
  using Dial_init_result(3) [OF Dial_init_example] by (simp add: example_fields)


lemma example_effective_0: "effective_value example_dial v = 0"
  by (simp add: effective_value_def example_conf example_fields example_stored)


section \<open>The needle angle\<close>



section \<open>Clamping of the needle\<close>

lemma effective_value_clamp:
  assumes "min_value (conf self) \<le> max_value (conf self)"
  shows "effective_value self v =
           (if limit_rotation (conf self)
            then (if stored_value self < min_value (conf self) then min_value (conf self)
                  else if max_value (conf self) < stored_value self then max_value (conf self)
                  else stored_value self)
            else v)"
  using assms by (simp add: effective_value_def max_def min_def)

lemma set_value_same: "set_value self (stored_value self) = (None, self)"
  by (simp add: set_value_def)

lemma set_value_changed:
  assumes "x \<noteq> stored_value self"
  shows "set_value self x =
           (case update_needle (self\<lparr>stored_value := x\<rparr>) x of
              Inl e \<Rightarrow> (Some e, self\<lparr>stored_value := x\<rparr>)
            | Inr self2 \<Rightarrow> (None, self2))"
  using assms by (simp add: set_value_def Let_def)

lemma needle_polygon_conf_frame:
  "needle_pad c = needle_pad (conf self) \<Longrightarrow>
   needle_polygon (self\<lparr>conf := c\<rparr>) a = needle_polygon self a"
  by (simp add: needle_polygon_def)

text \<open>
  Claim C2. On a dial with \<open>min_value < max_value\<close>, \<^verbatim>\<open>_update_needle\<close> computes the
  needle from the stored value constrained to the range when \<^verbatim>\<open>_limit_rotation\<close> is set,
  and from its argument as it is otherwise. On the example dial (range 0 to 100, rotation
  limited) assigning 150 gives the polygon that assigning 100 gives, and assigning \<open>- 10\<close>
  gives the polygon of the value 0; with the limit off, 150 is used as it is.
\<close>

theorem update_needle_clamps:
  assumes "min_value (conf self) < max_value (conf self)"
  shows "update_needle self v =
           Inr (self\<lparr>needle_points := needle_polygon self
                  (angle_offset
                     ((if limit_rotation (conf self)
                       then (if stored_value self < min_value (conf self)
                             then min_value (conf self)
                             else if max_value (conf self) < stored_value self
                             then max_value (conf self)
                             else stored_value self)
                       else v)
                      / (max_value (conf self) - min_value (conf self))))\<rparr>)"
proof -
  from assms have ne: "max_value (conf self) \<noteq> min_value (conf self)"
    and le: "min_value (conf self) \<le> max_value (conf self)" by simp_all
  show ?thesis
    unfolding update_needle_Inr [OF ne] effective_value_clamp [OF le] ..
qed

theorem update_needle_clamps_witness:
  "min_value (conf example_dial) < max_value (conf example_dial) \<and>
   limit_rotation (conf example_dial) \<and>
   min_value (conf example_dial) = 0 \<and> max_value (conf example_dial) = 100 \<and>
   needle_points (snd (set_value example_dial 150)) = needle_polygon example_dial (angle_offset 1) \<and>
   needle_points (snd (set_value example_dial 100)) = needle_polygon example_dial (angle_offset 1) \<and>
   needle_points (snd (set_value example_dial (- 10))) = needle_polygon example_dial (angle_offset 0) \<and>
   needle_points (snd (set_value example_dial 0)) = needle_polygon example_dial (angle_offset 0) \<and>
   update_needle (example_dial\<lparr>conf := (conf example_dial)\<lparr>limit_rotation := False\<rparr>\<rparr>) 150 =
     Inr (example_dial\<lparr>conf := (conf example_dial)\<lparr>limit_rotation := False\<rparr>,
            needle_points := needle_polygon example_dial (angle_offset (150 / 100))\<rparr>)"
proof -
  have lt: "min_value (conf example_dial) < max_value (conf example_dial)"
    by (simp add: example_conf example_fields)
  have lt': "min_value (conf (example_dial\<lparr>stored_value := x\<rparr>))
               < max_value (conf (example_dial\<lparr>stored_value := x\<rparr>))" for x
    by (simp add: example_conf example_fields)
  have lt'': "min_value (conf (example_dial\<lparr>conf := (conf example_dial)\<lparr>limit_rotation := False\<rparr>\<rparr>))
               < max_value (conf (example_dial\<lparr>conf := (conf example_dial)\<lparr>limit_rotation := False\<rparr>\<rparr>))"
    by (simp add: example_conf example_fields)
  have a: "needle_points (snd (set_value example_dial 150)) = needle_polygon example_dial (angle_offset 1)"
    using update_needle_clamps [OF lt' [of 150], of 150]
    by (simp add: set_value_changed example_stored example_conf example_fields)
  have b: "needle_points (snd (set_value example_dial 100)) = needle_polygon example_dial (angle_offset 1)"
    using update_needle_clamps [OF lt' [of 100], of 100]
    by (simp add: set_value_changed example_stored example_conf example_fields)
  have c: "needle_points (snd (set_value example_dial (- 10))) = needle_polygon example_dial (angle_offset 0)"
    using update_needle_clamps [OF lt' [of "- 10"], of "- 10"]
    by (simp add: set_value_changed example_stored example_conf example_fields)
  have d: "needle_points (snd (set_value example_dial 0)) = needle_polygon example_dial (angle_offset 0)"
    using Dial_init_result(7) [OF Dial_init_example] set_value_same [of example_dial]
    by (simp add: example_stored example_effective_0 example_fields)
  have e: "update_needle (example_dial\<lparr>conf := (conf example_dial)\<lparr>limit_rotation := False\<rparr>\<rparr>) 150 =
     Inr (example_dial\<lparr>conf := (conf example_dial)\<lparr>limit_rotation := False\<rparr>,
            needle_points := needle_polygon example_dial (angle_offset (150 / 100))\<rparr>)"
    using update_needle_clamps [OF lt'', of 150]
    by (simp add: example_conf example_fields needle_polygon_conf_frame)
  from lt a b c d e show ?thesis
    by (simp add: example_conf example_fields)
qed

section \<open>The value property\<close>

text \<open>
  Claim C5. Assigning the stored value again changes nothing: the setter raises nothing
  and returns the widget as it was, whatever its needle polygon is, so the polygon is not
  computed again.
\<close>

theorem set_same_value_noop: "set_value self (stored_value self) = (None, self)"
  by (simp add: set_value_def)

lemma set_value_frame:
  "(snd (set_value self v))\<lparr>stored_value := stored_value self,
      needle_points := needle_points self\<rparr> = self"
proof (cases "v = stored_value self")
  case True
  then show ?thesis by (simp add: set_value_same)
next
  case False
  show ?thesis
  proof (cases "update_needle (self\<lparr>stored_value := v\<rparr>) v")
    case (Inl e)
    with False show ?thesis by (simp add: set_value_changed)
  next
    case (Inr d)
    from update_needle_fields [OF Inr] obtain pts
      where "d = self\<lparr>stored_value := v, needle_points := pts\<rparr>" by auto
    with Inr False show ?thesis by (simp add: set_value_changed)
  qed
qed

lemma assign_values_frame:
  "(assign_values self vs)\<lparr>stored_value := stored_value self,
      needle_points := needle_points self\<rparr> = self"
proof (induction vs arbitrary: self)
  case Nil
  show ?case by simp
next
  case (Cons v vs)
  define s1 where "s1 = snd (set_value self v)"
  define r where "r = assign_values s1 vs"
  have ih: "r\<lparr>stored_value := stored_value s1, needle_points := needle_points s1\<rparr> = s1"
    unfolding r_def by (rule Cons.IH)
  have "r\<lparr>stored_value := stored_value self, needle_points := needle_points self\<rparr>
          = (r\<lparr>stored_value := stored_value s1, needle_points := needle_points s1\<rparr>)
              \<lparr>stored_value := stored_value self, needle_points := needle_points self\<rparr>"
    by simp
  also have "\<dots> = s1\<lparr>stored_value := stored_value self, needle_points := needle_points self\<rparr>"
    by (simp only: ih)
  also have "\<dots> = self" unfolding s1_def by (rule set_value_frame)
  finally show ?case by (simp add: r_def s1_def)
qed

lemma set_value_polygon:
  "needle_points (snd (set_value self v)) = needle_points self \<or>
   (\<exists>a. needle_points (snd (set_value self v)) = needle_polygon self a)"
proof (cases "v = stored_value self")
  case True
  then show ?thesis by (simp add: set_value_same)
next
  case False
  show ?thesis
  proof (cases "update_needle (self\<lparr>stored_value := v\<rparr>) v")
    case (Inl e)
    with False show ?thesis by (simp add: set_value_changed)
  next
    case (Inr d)
    then have "\<exists>a. needle_points d = needle_polygon self a"
      unfolding update_needle_Inr_iff by auto
    with Inr False show ?thesis by (simp add: set_value_changed)
  qed
qed

text \<open>
  Claim C9. A sequence of assignments to the value leaves the face raster and its palette
  as they were: resetting the stored value and the points of the needle in the resulting
  widget gives back the widget before the assignments, so nothing else has changed. One
  assignment either keeps the list of points or replaces it by a polygon computed anew.
\<close>

theorem value_updates_keep_face:
  "dial_bitmap (assign_values self vs) = dial_bitmap self \<and>
   dial_palette (assign_values self vs) = dial_palette self \<and>
   (assign_values self vs)\<lparr>stored_value := stored_value self,
      needle_points := needle_points self\<rparr> = self \<and>
   (needle_points (snd (set_value self v)) = needle_points self \<or>
    (\<exists>a. needle_points (snd (set_value self v)) = needle_polygon self a))"
proof -
  have f: "(assign_values self vs)\<lparr>stored_value := stored_value self,
      needle_points := needle_points self\<rparr> = self"
    by (rule assign_values_frame)
  have "dial_bitmap (assign_values self vs) =
          dial_bitmap ((assign_values self vs)\<lparr>stored_value := stored_value self,
            needle_points := needle_points self\<rparr>)" by simp
  then have b: "dial_bitmap (assign_values self vs) = dial_bitmap self" by (simp only: f)
  have "dial_palette (assign_values self vs) =
          dial_palette ((assign_values self vs)\<lparr>stored_value := stored_value self,
            needle_points := needle_points self\<rparr>)" by simp
  then have p: "dial_palette (assign_values self vs) = dial_palette self" by (simp only: f)
  from f b p set_value_polygon [of self v] show ?thesis by blast
qed

lemma stored_after_set: "stored_value (snd (set_value self v)) = v"
proof (cases "v = stored_value self")
  case True
  then show ?thesis by (simp add: set_value_same)
next
  case False
  then show ?thesis
    by (cases "update_needle (self\<lparr>stored_value := v\<rparr>) v")
       (auto simp: set_value_changed dest: update_needle_fields)
qed

lemma conf_after_set: "conf (snd (set_value self v)) = conf self"
proof -
  have "conf (snd (set_value self v))
          = conf ((snd (set_value self v))\<lparr>stored_value := stored_value self,
                     needle_points := needle_points self\<rparr>)" by simp
  then show ?thesis by (simp only: set_value_frame)
qed

text \<open>
  Claim C10. The property reads back the value that was assigned, whatever the range and
  the rotation limit are, and a dial constructed without a value stores \<open>min_value\<close>. On
  the example dial, with the rotation limited and the range ending at 100, reading after
  assigning 150 gives 150, while the needle is computed from 100.
\<close>

theorem stored_value_not_clamped:
  "get_value (snd (set_value self v)) = v \<and>
   (Dial_init hst args = Inr d \<longrightarrow> init_value args = None \<longrightarrow> get_value d = min_value args)"
  using Dial_init_result(3) [of hst args d]
  by (auto simp: get_value_def stored_after_set)

theorem stored_value_not_clamped_witness:
  "limit_rotation (conf example_dial) \<and> max_value (conf example_dial) = 100 \<and>
   get_value (snd (set_value example_dial 150)) = 150 \<and>
   effective_value (snd (set_value example_dial 150)) 150 = 100 \<and>
   Dial_init example_host example_config = Inr example_dial \<and>
   init_value example_config = None \<and>
   get_value example_dial = min_value example_config"
  using stored_value_not_clamped [of example_dial 150 example_host example_config example_dial]
        Dial_init_example
  by (simp add: example_conf example_fields effective_value_def conf_after_set get_value_def)

section \<open>Dimensions\<close>

lemma ceiling_int_diff: "\<lceil>real_of_int w - 2 * real_of_int p\<rceil> = w - 2 * p"
proof -
  have "real_of_int w - 2 * real_of_int p = real_of_int (w - 2 * p)" by simp
  then show ?thesis by (simp only: ceiling_of_int)
qed

lemma py_round_half_small: "py_round (0 / 2) = 0" "py_round (1 / 2) = 0"
  by (simp_all add: py_round_def Let_def)

lemma py_round_half_pos_iff:
  assumes "0 \<le> n"
  shows "(0 < py_round (of_int n / 2)) = (2 \<le> n)"
proof (cases "2 \<le> n")
  case True
  with py_round_half_pos [OF True] show ?thesis by simp
next
  case False
  with assms have "n = 0 \<or> n = 1" by linarith
  with False show ?thesis using py_round_half_small by auto
qed

lemma Dial_init_bad_dimensions:
  assumes "get_font_height args
             (Some (case tick_label_font args of None \<Rightarrow> terminalio_FONT hst | Some f \<Rightarrow> f))
             (tick_label_scale args) = Inr fh"
    and "width args - 2 * padding args < 0 \<or> height args - 2 * padding args < 0"
  shows "Dial_init hst args
           = Inl (ValueError ''Width, height, or padding size makes zero sized box'')"
proof -
  have "adjust_dimensions args (width args) (height args)
          = Inl (ValueError ''Width, height, or padding size makes zero sized box'')"
    using assms(2) by (simp add: adjust_dimensions_eq)
  with assms(1) show ?thesis
    by (simp add: Dial_init_def initialize_dial_def Let_def)
qed

lemma Dial_init_equal_bounds:
  assumes "get_font_height args
             (Some (case tick_label_font args of None \<Rightarrow> terminalio_FONT hst | Some f \<Rightarrow> f))
             (tick_label_scale args) = Inr fh"
    and "0 \<le> width args - 2 * padding args"
    and "0 \<le> height args - 2 * padding args"
    and "length (items (major_tick_labels args)) \<noteq> 1"
    and "max_value args = min_value args"
  shows "Dial_init hst args = Inl ZeroDivisionError"
proof -
  let ?fnt = "case tick_label_font args of None \<Rightarrow> terminalio_FONT hst | Some f \<Rightarrow> f"
  obtain g where g: "adjust_dimensions args (width args) (height args) = Inr g"
    using assms(2,3) by (simp add: adjust_dimensions_eq)
  obtain bm3 where bm3:
    "draw_labels hst args ?fnt fh g
       (draw_ticks g
         (draw_ticks g (Bitmap (dim_width g) (dim_height g) 3) (major_ticks args)
            (major_tick_stroke args) (major_tick_length args))
         (minor_ticks args * (major_ticks args - 1) + 1)
         (minor_tick_stroke args) (minor_tick_length args)) = Inr bm3"
    using draw_labels_Inr [OF assms(4)] by blast
  show ?thesis
    using assms(1,5) g bm3
    by (simp add: Dial_init_def initialize_dial_def Let_def update_needle_def py_truediv_def)
qed

lemma default_font_height:
  "get_font_height (default_config\<lparr>width := w, height := h, padding := p\<rparr>)
     (Some (case tick_label_font (default_config\<lparr>width := w, height := h, padding := p\<rparr>) of
              None \<Rightarrow> terminalio_FONT example_host | Some f \<Rightarrow> f))
     (tick_label_scale (default_config\<lparr>width := w, height := h, padding := p\<rparr>)) = Inr 14"
  by (simp add: get_font_height_def default_config_def example_host_def py_int_def)

lemma Dial_init_radius:
  assumes "get_font_height args
             (Some (case tick_label_font args of None \<Rightarrow> terminalio_FONT hst | Some f \<Rightarrow> f))
             (tick_label_scale args) = Inr fh"
    and "0 \<le> width args - 2 * padding args"
    and "0 \<le> height args - 2 * padding args"
    and "length (items (major_tick_labels args)) \<noteq> 1"
    and "max_value args \<noteq> min_value args"
  shows "\<exists>d. Dial_init hst args = Inr d \<and>
             dial_radius d = py_round (of_int (width args - 2 * padding args) / 2) \<and>
             (0 < dial_radius d) = (2 \<le> width args - 2 * padding args)"
proof -
  obtain d where d: "Dial_init hst args = Inr d"
    using Dial_init_succeeds [OF assms] by blast
  from Dial_init_result(1) [OF d] assms(2,3)
  have r: "dial_radius d = py_round (of_int (width args - 2 * padding args) / 2)"
    by (auto simp: adjust_dimensions_eq)
  with d py_round_half_pos_iff [OF assms(2)] show ?thesis by simp
qed

text \<open>
  Claim C3, as the source has it. \<^verbatim>\<open>_adjust_dimensions\<close> raises its \<^verbatim>\<open>ValueError\<close>
  exactly when \<open>width - 2 * padding < 0\<close> or \<open>height - 2 * padding < 0\<close>, and returns
  otherwise. Construction with such dimensions always fails and returns no widget; it fails
  with that \<^verbatim>\<open>ValueError\<close> when the lookup of the font height, which runs before the
  check, has succeeded. A width of 10 with a padding of 10 and the built-in font fails with
  the \<^verbatim>\<open>ValueError\<close>. For construction as a whole the equivalence does not hold: with
  such dimensions and a font without the two attributes the error is the
  \<^verbatim>\<open>UnboundLocalError\<close> of the lookup, and with valid dimensions and equal bounds
  construction fails with a \<^verbatim>\<open>ZeroDivisionError\<close>.
\<close>

theorem adjust_dimensions_raises:
  "(adjust_dimensions self w h
      = Inl (ValueError ''Width, height, or padding size makes zero sized box''))
     = (w - 2 * padding self < 0 \<or> h - 2 * padding self < 0) \<and>
   (\<exists>g. adjust_dimensions self w h = Inr g)
     = (0 \<le> w - 2 * padding self \<and> 0 \<le> h - 2 * padding self) \<and>
   (width args - 2 * padding args < 0 \<or> height args - 2 * padding args < 0
      \<longrightarrow> (\<exists>e. Dial_init hst args = Inl e)) \<and>
   ((width args - 2 * padding args < 0 \<or> height args - 2 * padding args < 0) \<and>
    get_font_height args
      (Some (case tick_label_font args of None \<Rightarrow> terminalio_FONT hst | Some f \<Rightarrow> f))
      (tick_label_scale args) = Inr fh
      \<longrightarrow> Dial_init hst args
            = Inl (ValueError ''Width, height, or padding size makes zero sized box''))"
proof (intro conjI impI)
  show "(adjust_dimensions self w h
      = Inl (ValueError ''Width, height, or padding size makes zero sized box''))
     = (w - 2 * padding self < 0 \<or> h - 2 * padding self < 0)"
    by (simp add: adjust_dimensions_eq)
  show "(\<exists>g. adjust_dimensions self w h = Inr g)
     = (0 \<le> w - 2 * padding self \<and> 0 \<le> h - 2 * padding self)"
    by (auto simp: adjust_dimensions_eq)
next
  assume bad: "width args - 2 * padding args < 0 \<or> height args - 2 * padding args < 0"
  show "\<exists>e. Dial_init hst args = Inl e"
  proof (cases "Dial_init hst args")
    case (Inl e)
    then show ?thesis by blast
  next
    case (Inr d)
    from Dial_init_result(1) [OF Inr] bad show ?thesis
      by (auto simp: adjust_dimensions_eq)
  qed
next
  assume "(width args - 2 * padding args < 0 \<or> height args - 2 * padding args < 0) \<and>
    get_font_height args
      (Some (case tick_label_font args of None \<Rightarrow> terminalio_FONT hst | Some f \<Rightarrow> f))
      (tick_label_scale args) = Inr fh"
  then show "Dial_init hst args
            = Inl (ValueError ''Width, height, or padding size makes zero sized box'')"
    using Dial_init_bad_dimensions by blast
qed

theorem adjust_dimensions_raises_witness:
  "(width (default_config\<lparr>width := 10, height := 100, padding := 10\<rparr>)
      - 2 * padding (default_config\<lparr>width := 10, height := 100, padding := 10\<rparr>) < 0 \<or>
    height (default_config\<lparr>width := 10, height := 100, padding := 10\<rparr>)
      - 2 * padding (default_config\<lparr>width := 10, height := 100, padding := 10\<rparr>) < 0) \<and>
   get_font_height (default_config\<lparr>width := 10, height := 100, padding := 10\<rparr>)
     (Some (terminalio_FONT example_host)) 1 = Inr 14 \<and>
   adjust_dimensions (default_config\<lparr>width := 10, height := 100, padding := 10\<rparr>) 10 100
     = Inl (ValueError ''Width, height, or padding size makes zero sized box'') \<and>
   Dial_init example_host (default_config\<lparr>width := 10, height := 100, padding := 10\<rparr>)
     = Inl (ValueError ''Width, height, or padding size makes zero sized box'')"
proof -
  let ?args = "default_config\<lparr>width := 10, height := 100, padding := 10\<rparr>"
  have bad: "width ?args - 2 * padding ?args < 0 \<or> height ?args - 2 * padding ?args < 0"
    by simp
  have p: "padding ?args = 10" by simp
  have fh: "get_font_height ?args
      (Some (case tick_label_font ?args of None \<Rightarrow> terminalio_FONT example_host | Some f \<Rightarrow> f))
      (tick_label_scale ?args) = Inr 14"
    by (rule default_font_height)
  have fh': "get_font_height ?args (Some (terminalio_FONT example_host)) 1 = Inr 14"
    using fh by (simp add: default_config_def)
  from adjust_dimensions_raises [of ?args 10 100 ?args example_host 14] bad fh p
  have "adjust_dimensions ?args 10 100
          = Inl (ValueError ''Width, height, or padding size makes zero sized box'') \<and>
        Dial_init example_host ?args
          = Inl (ValueError ''Width, height, or padding size makes zero sized box'')"
    by simp
  with bad fh' show ?thesis by blast
qed

theorem construction_error_not_iff_dimensions:
  "width (default_config\<lparr>width := 10, padding := 10, tick_label_font := Some bare_font\<rparr>)
     - 2 * padding (default_config\<lparr>width := 10, padding := 10, tick_label_font := Some bare_font\<rparr>) < 0 \<and>
   Dial_init example_host
     (default_config\<lparr>width := 10, padding := 10, tick_label_font := Some bare_font\<rparr>)
     = Inl (UnboundLocalError ''font_height'') \<and>
   0 \<le> width (default_config\<lparr>min_value := 5, max_value := 5\<rparr>)
         - 2 * padding (default_config\<lparr>min_value := 5, max_value := 5\<rparr>) \<and>
   0 \<le> height (default_config\<lparr>min_value := 5, max_value := 5\<rparr>)
         - 2 * padding (default_config\<lparr>min_value := 5, max_value := 5\<rparr>) \<and>
   Dial_init example_host (default_config\<lparr>min_value := 5, max_value := 5\<rparr>)
     = Inl ZeroDivisionError"
proof -
  let ?a = "default_config\<lparr>width := 10, padding := 10, tick_label_font := Some bare_font\<rparr>"
  let ?b = "default_config\<lparr>min_value := 5, max_value := 5\<rparr>"
  have a1: "width ?a - 2 * padding ?a < 0" by simp
  have a2: "Dial_init example_host ?a = Inl (UnboundLocalError ''font_height'')"
    by (simp add: Dial_init_def initialize_dial_def Let_def get_font_height_def
                  default_config_def bare_font_def)
  have b1: "0 \<le> width ?b - 2 * padding ?b" and b2: "0 \<le> height ?b - 2 * padding ?b"
    by (simp_all add: default_config_def)
  have fh: "get_font_height ?b
      (Some (case tick_label_font ?b of None \<Rightarrow> terminalio_FONT example_host | Some f \<Rightarrow> f))
      (tick_label_scale ?b) = Inr 14"
    by (simp add: get_font_height_def default_config_def example_host_def py_int_def)
  have b3: "Dial_init example_host ?b = Inl ZeroDivisionError"
    by (rule Dial_init_equal_bounds [OF fh b1 b2]) (simp_all add: default_config_def)
  from a1 a2 b1 b2 b3 show ?thesis by blast
qed

text \<open>
  Claim C4, as the source has it. With \<open>width - 2 * padding \<ge> 0\<close> and
  \<open>height - 2 * padding \<ge> 0\<close> construction succeeds: with every other argument at its
  default, and with any arguments whose font height is found, whose labels are not exactly
  one and whose bounds differ. The radius of the constructed dial is
  \<open>round ((width - 2 * padding) / 2)\<close>, which is positive exactly when
  \<open>width - 2 * padding \<ge> 2\<close>. It is not positive for every \<open>width > 2 * padding\<close>: a width
  of 11 with the default padding of 5 gives \<^verbatim>\<open>round(0.5)\<close>, which is 0.
\<close>

theorem radius_positive:
  "(0 \<le> w - 2 * p \<and> 0 \<le> h - 2 * p \<longrightarrow>
      (\<exists>d. Dial_init example_host (default_config\<lparr>width := w, height := h, padding := p\<rparr>)
              = Inr d \<and>
           dial_radius d = py_round (of_int (w - 2 * p) / 2) \<and>
           (0 < dial_radius d) = (2 \<le> w - 2 * p))) \<and>
   (0 \<le> width args - 2 * padding args \<and> 0 \<le> height args - 2 * padding args \<and>
    get_font_height args
      (Some (case tick_label_font args of None \<Rightarrow> terminalio_FONT hst | Some f \<Rightarrow> f))
      (tick_label_scale args) = Inr fh \<and>
    length (items (major_tick_labels args)) \<noteq> 1 \<and> max_value args \<noteq> min_value args \<longrightarrow>
      (\<exists>d. Dial_init hst args = Inr d \<and>
           dial_radius d = py_round (of_int (width args - 2 * padding args) / 2) \<and>
           (0 < dial_radius d) = (2 \<le> width args - 2 * padding args)))"
proof (intro conjI impI)
  let ?args = "default_config\<lparr>width := w, height := h, padding := p\<rparr>"
  assume v: "0 \<le> w - 2 * p \<and> 0 \<le> h - 2 * p"
  from v have v1: "0 \<le> width ?args - 2 * padding ?args"
    and v2: "0 \<le> height ?args - 2 * padding ?args" by simp_all
  have l: "length (items (major_tick_labels ?args)) \<noteq> 1"
    and m: "max_value ?args \<noteq> min_value ?args"
    by (simp_all add: default_config_def)
  have "\<exists>d. Dial_init example_host ?args = Inr d \<and>
             dial_radius d = py_round (of_int (width ?args - 2 * padding ?args) / 2) \<and>
             (0 < dial_radius d) = (2 \<le> width ?args - 2 * padding ?args)"
    by (rule Dial_init_radius [OF default_font_height v1 v2 l m])
  then show "\<exists>d. Dial_init example_host ?args = Inr d \<and>
           dial_radius d = py_round (of_int (w - 2 * p) / 2) \<and>
           (0 < dial_radius d) = (2 \<le> w - 2 * p)"
    by simp
next
  assume "0 \<le> width args - 2 * padding args \<and> 0 \<le> height args - 2 * padding args \<and>
    get_font_height args
      (Some (case tick_label_font args of None \<Rightarrow> terminalio_FONT hst | Some f \<Rightarrow> f))
      (tick_label_scale args) = Inr fh \<and>
    length (items (major_tick_labels args)) \<noteq> 1 \<and> max_value args \<noteq> min_value args"
  then show "\<exists>d. Dial_init hst args = Inr d \<and>
           dial_radius d = py_round (of_int (width args - 2 * padding args) / 2) \<and>
           (0 < dial_radius d) = (2 \<le> width args - 2 * padding args)"
    using Dial_init_radius by blast
qed

theorem radius_positive_witness:
  "(0 \<le> (11::int) - 2 * 5 \<and> 0 \<le> (11::int) - 2 * 5) \<and>
   (\<exists>d. Dial_init example_host (default_config\<lparr>width := 11, height := 11, padding := 5\<rparr>)
           = Inr d \<and> dial_radius d = 0) \<and>
   (0 \<le> (150::int) - 2 * 12 \<and> 0 \<le> (150::int) - 2 * 12) \<and>
   (\<exists>d. Dial_init example_host (default_config\<lparr>width := 150, height := 150, padding := 12\<rparr>)
           = Inr d \<and> dial_radius d = 63 \<and> 0 < dial_radius d) \<and>
   (0 \<le> width example_config - 2 * padding example_config \<and>
    0 \<le> height example_config - 2 * padding example_config \<and>
    get_font_height example_config
      (Some (case tick_label_font example_config of
               None \<Rightarrow> terminalio_FONT example_host | Some f \<Rightarrow> f))
      (tick_label_scale example_config) = Inr 14 \<and>
    length (items (major_tick_labels example_config)) \<noteq> 1 \<and>
    max_value example_config \<noteq> min_value example_config) \<and>
   (\<exists>d. Dial_init example_host example_config = Inr d \<and> dial_radius d = 63 \<and> 0 < dial_radius d)"
proof -
  have s: "length (items (major_tick_labels example_config)) \<noteq> 1"
    by (simp add: example_config_def default_config_def)
  have h: "0 \<le> width example_config - 2 * padding example_config \<and>
    0 \<le> height example_config - 2 * padding example_config \<and>
    get_font_height example_config
      (Some (case tick_label_font example_config of
               None \<Rightarrow> terminalio_FONT example_host | Some f \<Rightarrow> f))
      (tick_label_scale example_config) = Inr 14 \<and>
    length (items (major_tick_labels example_config)) \<noteq> 1 \<and>
    max_value example_config \<noteq> min_value example_config"
    using example_font_height s by (simp add: example_fields)
  have a: "\<exists>d. Dial_init example_host (default_config\<lparr>width := 11, height := 11, padding := 5\<rparr>)
           = Inr d \<and> dial_radius d = 0"
    using radius_positive [of 11 5 11 example_config example_host 14]
    by (auto simp: py_round_def Let_def)
  have b: "\<exists>d. Dial_init example_host (default_config\<lparr>width := 150, height := 150, padding := 12\<rparr>)
           = Inr d \<and> dial_radius d = 63 \<and> 0 < dial_radius d"
    using radius_positive [of 150 12 150 example_config example_host 14]
    by (auto simp: py_round_def Let_def)
  have c: "\<exists>d. Dial_init example_host example_config = Inr d \<and> dial_radius d = 63 \<and> 0 < dial_radius d"
    using radius_positive [of 150 12 150 example_config example_host 14] h
    by (auto simp: example_fields py_round_def Let_def)
  from a b c h show ?thesis by simp
qed

theorem small_dial_radius_zero:
  "0 \<le> 11 - 2 * padding default_config \<and> 2 * padding default_config < 11 \<and>
   adjust_dimensions default_config 11 11 =
     Inr \<lparr>dim_width = 11, dim_height = 11, dim_center = (5, 5), dim_radius = 0\<rparr>"
  by (simp add: adjust_dimensions_eq default_config_def py_round_def Let_def)

text \<open>
  Claim C6. For valid dimensions the radius is \<open>round ((width - 2 * padding) / 2)\<close>, both
  coordinates of the centre are \<open>round radius + padding\<close>, and the height of the face is
  \<open>ceil (width - 2 * padding) + 2 * padding\<close>, whatever height was requested; a constructed
  dial holds these values. For 150, 150 and 12 the radius is 63 and the centre (75, 75).
\<close>

theorem derived_geometry:
  "(0 \<le> w - 2 * padding self \<and> 0 \<le> h - 2 * padding self \<longrightarrow>
      adjust_dimensions self w h =
        Inr \<lparr>dim_width = w,
             dim_height = \<lceil>real_of_int (w - 2 * padding self)\<rceil> + 2 * padding self,
             dim_center =
               (py_round (of_int (py_round (of_int (w - 2 * padding self) / 2))) + padding self,
                py_round (of_int (py_round (of_int (w - 2 * padding self) / 2))) + padding self),
             dim_radius = py_round (of_int (w - 2 * padding self) / 2)\<rparr>) \<and>
   (Dial_init hst args = Inr d \<longrightarrow>
      dial_radius d = py_round (of_int (width args - 2 * padding args) / 2) \<and>
      dial_center d = (dial_radius d + padding args, dial_radius d + padding args) \<and>
      face_width d = width args \<and>
      face_height d = \<lceil>real_of_int (width args - 2 * padding args)\<rceil> + 2 * padding args)"
proof (intro conjI impI)
  assume "0 \<le> w - 2 * padding self \<and> 0 \<le> h - 2 * padding self"
  then show "adjust_dimensions self w h =
        Inr \<lparr>dim_width = w,
             dim_height = \<lceil>real_of_int (w - 2 * padding self)\<rceil> + 2 * padding self,
             dim_center =
               (py_round (of_int (py_round (of_int (w - 2 * padding self) / 2))) + padding self,
                py_round (of_int (py_round (of_int (w - 2 * padding self) / 2))) + padding self),
             dim_radius = py_round (of_int (w - 2 * padding self) / 2)\<rparr>"
    by (simp add: adjust_dimensions_eq py_round_of_int ceiling_int_diff)
next
  assume "Dial_init hst args = Inr d"
  from Dial_init_result(1) [OF this]
  have "dial_radius d = py_round (of_int (width args - 2 * padding args) / 2) \<and>
      dial_center d = (dial_radius d + padding args, dial_radius d + padding args) \<and>
      face_width d = width args \<and>
      face_height d = \<lceil>real_of_int (width args - 2 * padding args)\<rceil> + 2 * padding args"
    by (auto simp: adjust_dimensions_eq ceiling_int_diff split: if_splits)
  then show "dial_radius d = py_round (of_int (width args - 2 * padding args) / 2)"
    and "dial_center d = (dial_radius d + padding args, dial_radius d + padding args)"
    and "face_width d = width args"
    and "face_height d = \<lceil>real_of_int (width args - 2 * padding args)\<rceil> + 2 * padding args"
    by simp_all
qed

theorem derived_geometry_witness:
  "0 \<le> 150 - 2 * padding example_config \<and>
   adjust_dimensions example_config 150 150 =
     Inr \<lparr>dim_width = 150, dim_height = 150, dim_center = (75, 75), dim_radius = 63\<rparr> \<and>
   Dial_init example_host example_config = Inr example_dial \<and>
   dial_radius example_dial = 63 \<and> dial_center example_dial = (75, 75) \<and>
   face_width example_dial = 150 \<and> face_height example_dial = 150"
  using derived_geometry [of 150 example_config 150 example_host example_config example_dial]
        Dial_init_example
  by (simp add: example_fields py_round_def Let_def)

section \<open>Fonts and labels\<close>

lemma eq_empty_list_items: "eq_empty_list ls \<Longrightarrow> items ls = []"
  by (cases ls) simp_all

text \<open>
  Claim C7, as the source has it. With at least one label and a font that has neither
  \<^verbatim>\<open>get_bounding_box\<close> nor \<^verbatim>\<open>ascent\<close>, construction fails: \<^verbatim>\<open>_get_font_height\<close>
  returns a local variable that no branch has assigned, and the interpreter raises
  \<^verbatim>\<open>UnboundLocalError\<close>. No statement of the source raises this error, and the source
  has no error of its own for fonts.
\<close>

theorem unsupported_font_fails:
  assumes "items (major_tick_labels args) \<noteq> []"
    and "tick_label_font args = Some f"
    and "get_bounding_box f = None" and "ascent f = None"
  shows "Dial_init hst args = Inl (UnboundLocalError ''font_height'')"
proof -
  from assms(1) have "\<not> eq_empty_list (major_tick_labels args)"
    using eq_empty_list_items by blast
  with assms(3,4) have "get_font_height args (Some f) (tick_label_scale args)
                          = Inl (UnboundLocalError ''font_height'')"
    by (simp add: get_font_height_def)
  with assms(2) show ?thesis
    by (simp add: Dial_init_def initialize_dial_def Let_def)
qed

theorem unsupported_font_fails_witness:
  "items (major_tick_labels (example_config\<lparr>tick_label_font := Some bare_font\<rparr>)) \<noteq> [] \<and>
   tick_label_font (example_config\<lparr>tick_label_font := Some bare_font\<rparr>) = Some bare_font \<and>
   get_bounding_box bare_font = None \<and> ascent bare_font = None \<and>
   Dial_init example_host (example_config\<lparr>tick_label_font := Some bare_font\<rparr>)
     = Inl (UnboundLocalError ''font_height'')"
proof -
  have a: "items (major_tick_labels (example_config\<lparr>tick_label_font := Some bare_font\<rparr>)) \<noteq> []"
    by (simp add: example_config_def default_config_def)
  have b: "tick_label_font (example_config\<lparr>tick_label_font := Some bare_font\<rparr>) = Some bare_font"
    by simp
  have c: "get_bounding_box bare_font = None" and d: "ascent bare_font = None"
    by (simp_all add: bare_font_def)
  from unsupported_font_fails [OF a b c d, of example_host] a b c d show ?thesis by blast
qed

theorem bare_font_unbound_local:
  "items (major_tick_labels (default_config\<lparr>tick_label_font := Some bare_font\<rparr>)) \<noteq> [] \<and>
   get_bounding_box bare_font = None \<and> ascent bare_font = None \<and>
   Dial_init example_host (default_config\<lparr>tick_label_font := Some bare_font\<rparr>)
     = Inl (UnboundLocalError ''font_height'') \<and>
   \<not> raised_by_statement (UnboundLocalError ''font_height'')"
  by (simp add: Dial_init_def initialize_dial_def Let_def get_font_height_def
                default_config_def bare_font_def)

lemma label_op_flag:
  "label_op hst (self\<lparr>rotate_tick_labels := b\<rparr>) fnt fh g n i t = label_op hst self fnt fh g n i t"
  by (simp add: label_op_def Let_def split: sum.splits)

lemma draw_labels_loop_flag:
  "draw_labels_loop hst (self\<lparr>rotate_tick_labels := b\<rparr>) fnt fh g n xs bm
     = draw_labels_loop hst self fnt fh g n xs bm"
proof (induction xs arbitrary: bm)
  case Nil
  show ?case by simp
next
  case (Cons p xs)
  obtain i t where p: "p = (i, t)" by (cases p)
  show ?case unfolding p by (simp add: label_op_flag Cons.IH split: sum.splits)
qed

text \<open>
  Claim C8, evaluated on the source. \<^verbatim>\<open>draw_labels\<close> gives the same calls whether
  \<^verbatim>\<open>_rotate_tick_labels\<close> is false or true, and with the flag false the five default
  labels are passed to \<^verbatim>\<open>rotozoom\<close> with the angles of their ticks, four of them not
  zero.
\<close>

theorem labels_rotated_whatever_flag:
  "draw_labels hst (self\<lparr>rotate_tick_labels := False\<rparr>) fnt fh g bm
     = draw_labels hst (self\<lparr>rotate_tick_labels := True\<rparr>) fnt fh g bm \<and>
   map_sum id (\<lambda>bm. map op_angle (bm_ops bm))
     (draw_labels hst (default_config\<lparr>rotate_tick_labels := False\<rparr>) fnt fh g (Bitmap w h 3))
     = Inr [Some (- pi), Some (- pi / 2), Some 0, Some (pi / 2), Some pi]"
proof
  show "draw_labels hst (self\<lparr>rotate_tick_labels := False\<rparr>) fnt fh g bm
     = draw_labels hst (self\<lparr>rotate_tick_labels := True\<rparr>) fnt fh g bm"
    by (simp add: draw_labels_def draw_labels_loop_flag)
  have l: "items (major_tick_labels (default_config\<lparr>rotate_tick_labels := False\<rparr>))
             = [''0'', ''25'', ''50'', ''75'', ''100'']"
    by (simp add: default_config_def)
  show "map_sum id (\<lambda>bm. map op_angle (bm_ops bm))
     (draw_labels hst (default_config\<lparr>rotate_tick_labels := False\<rparr>) fnt fh g (Bitmap w h 3))
     = Inr [Some (- pi), Some (- pi / 2), Some 0, Some (pi / 2), Some pi]"
    unfolding draw_labels_def l
    by (simp add: label_op_def py_truediv_def Let_def draw_def Bitmap_def)
qed

end
